theory Spec2Isabelle
  imports Complex_Main
begin

section \<open>The inventory optimizer page (app.py)\<close>

text \<open>
  The program is one Streamlit script. Each run of the script reads the sidebar
  widgets, derives the feature vector, and, when the predict button is pressed and
  a model is loaded, calls the model and renders metrics and insights.

  Conventions of the embedding:
  \<^item> Python integers are \<open>int\<close>.
  \<^item> Values of type numpy.float64 are \<open>npfloat\<close>: a real number, or one of the
    special values inf, -inf and nan. Finite arithmetic is taken over the reals
    (rounding of binary64 is not represented); what NumPy does at zero divisors
    and on special values is written out. The prediction is such a value:
    \<open>model.predict\<close> of the regressor returns a float64 array and the script takes
    its entry 0, so \<open>prediction - units_sold_lag1\<close>, the quotient and the products
    are float64 operations with a Python integer as the other operand.
  \<^item> The calls of \<open>np.sin\<close>, \<open>np.cos\<close> and the constant \<open>np.pi\<close> are the real
    \<open>sin\<close>, \<open>cos\<close> and \<open>pi\<close>.
  \<^item> Exceptions are values of type \<open>exn\<close>; a computation that may raise returns
    \<open>exn + 'a\<close>, with \<open>Inl\<close> for the exception.
  \<^item> What the script renders in its main area is a list of \<open>event\<close>s in the order
    the calls happen; the call of \<open>model.predict\<close> is an event too.
\<close>

subsection \<open>NumPy scalars and Python conversions\<close>

datatype npfloat = Finite real | PosInf | NegInf | NaN

datatype exn =
    ModelRaised string
  | LoadFailed string
  | ValueError
  | OverflowError
  | ZeroDivisionError

text \<open>\<open>x - n\<close> for a float64 \<open>x\<close> and a Python integer \<open>n\<close>.\<close>

fun np_sub_int :: "npfloat \<Rightarrow> int \<Rightarrow> npfloat" where
  "np_sub_int (Finite x) n = Finite (x - real_of_int n)"
| "np_sub_int PosInf n = PosInf"
| "np_sub_int NegInf n = NegInf"
| "np_sub_int NaN n = NaN"

text \<open>
  \<open>x / n\<close> for a float64 \<open>x\<close> and a Python integer \<open>n\<close>. NumPy does not raise on a
  zero divisor: it warns and returns inf, -inf or nan.
\<close>

fun np_div_int :: "npfloat \<Rightarrow> int \<Rightarrow> npfloat" where
  "np_div_int (Finite x) n =
     (if n = 0 then (if 0 < x then PosInf else if x < 0 then NegInf else NaN)
      else Finite (x / real_of_int n))"
| "np_div_int PosInf n = (if n < 0 then NegInf else PosInf)"
| "np_div_int NegInf n = (if n < 0 then PosInf else NegInf)"
| "np_div_int NaN n = NaN"

text \<open>\<open>x * n\<close> for a float64 \<open>x\<close> and a Python integer \<open>n\<close>.\<close>

fun np_mul_int :: "npfloat \<Rightarrow> int \<Rightarrow> npfloat" where
  "np_mul_int (Finite x) n = Finite (x * real_of_int n)"
| "np_mul_int PosInf n = (if 0 < n then PosInf else if n < 0 then NegInf else NaN)"
| "np_mul_int NegInf n = (if 0 < n then NegInf else if n < 0 then PosInf else NaN)"
| "np_mul_int NaN n = NaN"

text \<open>Comparisons with a Python integer; every comparison with nan is false.\<close>

fun np_gt_int :: "npfloat \<Rightarrow> int \<Rightarrow> bool" where
  "np_gt_int (Finite x) n = (real_of_int n < x)"
| "np_gt_int PosInf n = True"
| "np_gt_int NegInf n = False"
| "np_gt_int NaN n = False"

fun np_lt_int :: "npfloat \<Rightarrow> int \<Rightarrow> bool" where
  "np_lt_int (Finite x) n = (x < real_of_int n)"
| "np_lt_int PosInf n = False"
| "np_lt_int NegInf n = True"
| "np_lt_int NaN n = False"

fun np_abs :: "npfloat \<Rightarrow> npfloat" where
  "np_abs (Finite x) = Finite \<bar>x\<bar>"
| "np_abs PosInf = PosInf"
| "np_abs NegInf = PosInf"
| "np_abs NaN = NaN"

text \<open>
  \<open>int(x)\<close> of a float: truncation towards zero; \<open>OverflowError\<close> on an infinity and
  \<open>ValueError\<close> on nan.
\<close>

definition trunc :: "real \<Rightarrow> int" where
  "trunc x = (if 0 \<le> x then \<lfloor>x\<rfloor> else \<lceil>x\<rceil>)"

fun py_int :: "npfloat \<Rightarrow> exn + int" where
  "py_int (Finite x) = Inr (trunc x)"
| "py_int PosInf = Inl OverflowError"
| "py_int NegInf = Inl OverflowError"
| "py_int NaN = Inl ValueError"

text \<open>\<open>a / b\<close> for two Python integers: true division, raising on a zero divisor.\<close>

definition py_truediv :: "int \<Rightarrow> int \<Rightarrow> exn + real" where
  "py_truediv a b =
     (if b = 0 then Inl ZeroDivisionError else Inr (real_of_int a / real_of_int b))"

subsection \<open>Sidebar inputs and derived values\<close>

text \<open>
  The values the sidebar widgets return in one run. \<open>month_num\<close> is the index of the
  selected month name plus one; \<open>current_year\<close> is \<open>datetime.now().year\<close>;
  \<open>is_festive\<close> and \<open>is_harvest\<close> are the selected strings.
\<close>

record inputs =
  month_num :: int
  current_year :: int
  current_price :: int
  last_month_price :: int
  units_sold_lag1 :: int
  is_festive :: string
  is_harvest :: string
  predict_button :: bool

definition months_since_start :: "int \<Rightarrow> int \<Rightarrow> int" where
  "months_since_start year m = (year - 2017) * 12 + m"

definition price_change :: "inputs \<Rightarrow> int" where
  "price_change i = current_price i - last_month_price i"

definition is_festive_num :: "inputs \<Rightarrow> int" where
  "is_festive_num i = (if is_festive i = ''Yes'' then 1 else 0)"

definition is_harvest_num :: "inputs \<Rightarrow> int" where
  "is_harvest_num i = (if is_harvest i = ''Yes'' then 1 else 0)"

definition month_sin :: "int \<Rightarrow> real" where
  "month_sin m = sin (2 * pi * real_of_int m / 12)"

definition month_cos :: "int \<Rightarrow> real" where
  "month_cos m = cos (2 * pi * real_of_int m / 12)"

text \<open>The single row of the array passed to the model, as float64 values.\<close>

definition input_features :: "inputs \<Rightarrow> real list" where
  "input_features i =
     [real_of_int (months_since_start (current_year i) (month_num i)),
      real_of_int (units_sold_lag1 i),
      real_of_int (price_change i),
      month_sin (month_num i),
      month_cos (month_num i),
      real_of_int (is_festive_num i),
      real_of_int (is_harvest_num i)]"

subsection \<open>Insights\<close>

text \<open>
  One constructor per message template of the script, carrying the number the
  template formats.
\<close>

datatype insight =
    PriceIncreased int
  | PriceDecreased int
  | PriceStable
  | FestiveSeason
  | HarvestSeason
  | StockUp npfloat
  | ReduceInventory npfloat

definition change_pct :: "npfloat \<Rightarrow> int \<Rightarrow> npfloat" where
  "change_pct prediction lag1 =
     np_mul_int (np_div_int (np_sub_int prediction lag1) lag1) 100"

definition price_insight :: "inputs \<Rightarrow> insight list" where
  "price_insight i =
     (if price_change i > 0 then [PriceIncreased (price_change i)]
      else if price_change i < 0 then [PriceDecreased \<bar>price_change i\<bar>]
      else [PriceStable])"

definition festive_insight :: "inputs \<Rightarrow> insight list" where
  "festive_insight i = (if is_festive i = ''Yes'' then [FestiveSeason] else [])"

definition harvest_insight :: "inputs \<Rightarrow> insight list" where
  "harvest_insight i = (if is_harvest i = ''Yes'' then [HarvestSeason] else [])"

definition magnitude_insight :: "npfloat \<Rightarrow> int \<Rightarrow> insight list" where
  "magnitude_insight prediction lag1 =
     (if np_gt_int (change_pct prediction lag1) 10
        then [StockUp (np_abs (change_pct prediction lag1))]
      else if np_lt_int (change_pct prediction lag1) (- 10)
        then [ReduceInventory (np_abs (change_pct prediction lag1))]
      else [])"

text \<open>The list \<open>insights\<close> after the four blocks of appends.\<close>

definition insights :: "inputs \<Rightarrow> npfloat \<Rightarrow> insight list" where
  "insights i prediction =
     price_insight i @ festive_insight i @ harvest_insight i
       @ magnitude_insight prediction (units_sold_lag1 i)"

subsection \<open>One run of the script\<close>

text \<open>
  The model is a black box: a function from the feature row to a float64, which may
  raise. \<open>joblib.load\<close> either raises or returns the model; \<open>st.cache_resource\<close>
  keeps the outcome of \<open>load_model\<close> for the process, so the outcome is a parameter
  of a run.
\<close>

type_synonym model = "real list \<Rightarrow> exn + npfloat"

text \<open>
  What a run does in the main area, in order. \<open>MetricUnits\<close> carries the value
  and the delta of the first metric, \<open>MetricPrice\<close> the value and the delta of the
  second, \<open>MetricRevenue\<close> the value of the third. \<open>InputSummary\<close> carries the
  column of the summary table (the month by its number). Titles, rulers,
  the sidebar and the static text below the main area are left out.
\<close>

datatype event =
    ErrorLoading exn
  | PredictCall "real list"
  | MetricUnits int int
  | MetricPrice int real
  | MetricRevenue npfloat
  | Info insight
  | InputSummary int int int int int int string string
  | ErrorPredicting exn
  | DefaultView

definition load_model :: "exn + model \<Rightarrow> event list \<times> model option" where
  "load_model loaded =
     (case loaded of
        Inl e \<Rightarrow> ([ErrorLoading e], None)
      | Inr m \<Rightarrow> ([], Some m))"

definition input_summary :: "inputs \<Rightarrow> event" where
  "input_summary i =
     InputSummary (month_num i)
       (months_since_start (current_year i) (month_num i))
       (current_price i) (last_month_price i) (price_change i)
       (units_sold_lag1 i) (is_festive i) (is_harvest i)"

text \<open>
  The body of the \<open>try\<close>: the events up to the point where it ends, and the
  exception that ended it, if any. The arguments of a metric are evaluated before
  the metric is drawn.
\<close>

definition predict_block :: "model \<Rightarrow> inputs \<Rightarrow> event list \<times> exn option" where
  "predict_block m i =
     (case m (input_features i) of
        Inl e \<Rightarrow> ([PredictCall (input_features i)], Some e)
      | Inr prediction \<Rightarrow>
        (case py_int prediction of
           Inl e \<Rightarrow> ([PredictCall (input_features i)], Some e)
         | Inr units \<Rightarrow>
           (case py_int (np_sub_int prediction (units_sold_lag1 i)) of
              Inl e \<Rightarrow> ([PredictCall (input_features i)], Some e)
            | Inr delta \<Rightarrow>
              (case py_truediv (price_change i) (last_month_price i) of
                 Inl e \<Rightarrow>
                   ([PredictCall (input_features i), MetricUnits units delta], Some e)
               | Inr ratio \<Rightarrow>
                   ([PredictCall (input_features i),
                     MetricUnits units delta,
                     MetricPrice (price_change i) (ratio * 100),
                     MetricRevenue (np_mul_int prediction (current_price i))]
                    @ map Info (insights i prediction)
                    @ [input_summary i], None)))))"

text \<open>
  The main area: the \<open>try\<close> with its handler when the button is pressed and a
  model is there, the default view otherwise.
\<close>

definition main_area :: "model option \<Rightarrow> inputs \<Rightarrow> event list" where
  "main_area model i =
     (case model of
        Some m \<Rightarrow>
          (if predict_button i then
             (case predict_block m i of
                (evs, None) \<Rightarrow> evs
              | (evs, Some e) \<Rightarrow> evs @ [ErrorPredicting e])
           else [DefaultView])
      | None \<Rightarrow> [DefaultView])"

definition run :: "exn + model \<Rightarrow> inputs \<Rightarrow> event list" where
  "run loaded i =
     (case load_model loaded of (evs, model) \<Rightarrow> evs @ main_area model i)"

text \<open>Projections of a trace used to state properties.\<close>

fun infos :: "event list \<Rightarrow> insight list" where
  "infos [] = []"
| "infos (Info s # evs) = s # infos evs"
| "infos (ev # evs) = infos evs"

fun is_result :: "event \<Rightarrow> bool" where
  "is_result (MetricUnits u d) = True"
| "is_result (MetricPrice c r) = True"
| "is_result (MetricRevenue r) = True"
| "is_result (Info s) = True"
| "is_result (InputSummary a b c d e f g h) = True"
| "is_result ev = False"

fun is_predict_call :: "event \<Rightarrow> bool" where
  "is_predict_call (PredictCall v) = True"
| "is_predict_call ev = False"

fun is_price_direction :: "insight \<Rightarrow> bool" where
  "is_price_direction (PriceIncreased n) = True"
| "is_price_direction (PriceDecreased n) = True"
| "is_price_direction PriceStable = True"
| "is_price_direction s = False"

fun is_magnitude :: "insight \<Rightarrow> bool" where
  "is_magnitude (StockUp x) = True"
| "is_magnitude (ReduceInventory x) = True"
| "is_magnitude s = False"

text \<open>The block of the script an insight comes from, in the order of the blocks.\<close>

fun block_of :: "insight \<Rightarrow> nat" where
  "block_of (PriceIncreased n) = 0"
| "block_of (PriceDecreased n) = 0"
| "block_of PriceStable = 0"
| "block_of FestiveSeason = 1"
| "block_of HarvestSeason = 2"
| "block_of (StockUp x) = 3"
| "block_of (ReduceInventory x) = 3"

fun is_error :: "event \<Rightarrow> bool" where
  "is_error (ErrorLoading e) = True"
| "is_error (ErrorPredicting e) = True"
| "is_error ev = False"

fun is_metric :: "event \<Rightarrow> bool" where
  "is_metric (MetricUnits u d) = True"
| "is_metric (MetricPrice c r) = True"
| "is_metric (MetricRevenue r) = True"
| "is_metric ev = False"

subsection \<open>Concrete inputs and stub models\<close>

text \<open>
  The default values of the price, sales and seasonal widgets, with February
  selected, the year 2025 and the button pressed.
\<close>

definition example_inputs :: inputs where
  "example_inputs =
     \<lparr>month_num = 2, current_year = 2025, current_price = 1500,
      last_month_price = 1450, units_sold_lag1 = 1008,
      is_festive = ''No'', is_harvest = ''No'', predict_button = True\<rparr>"

text \<open>A model that returns a fixed scalar, and one whose \<open>predict\<close> raises.\<close>

definition constant_model :: "npfloat \<Rightarrow> model" where
  "constant_model x = (\<lambda>v. Inr x)"

definition failing_model :: "exn \<Rightarrow> model" where
  "failing_model e = (\<lambda>v. Inl e)"

section \<open>Properties\<close>

subsection \<open>Traces of a run\<close>

lemma infos_append: "infos (evs @ evs') = infos evs @ infos evs'"
  by (induction evs rule: infos.induct) simp_all

lemma infos_map_Info: "infos (map Info xs) = xs"
  by (induction xs) simp_all

lemma filter_map_Info:
  "filter is_result (map Info xs) = map Info xs"
  "filter is_error (map Info xs) = []"
  "filter is_metric (map Info xs) = []"
  "filter is_predict_call (map Info xs) = []"
  by (induction xs) simp_all

lemma predict_block_raises:
  "m (input_features i) = Inl e \<Longrightarrow>
   predict_block m i = ([PredictCall (input_features i)], Some e)"
  by (simp add: predict_block_def)

lemma predict_block_finite:
  assumes "m (input_features i) = Inr (Finite p)" and "last_month_price i \<noteq> 0"
  shows "predict_block m i =
    ([PredictCall (input_features i),
      MetricUnits (trunc p) (trunc (p - real_of_int (units_sold_lag1 i))),
      MetricPrice (price_change i)
        (real_of_int (price_change i) / real_of_int (last_month_price i) * 100),
      MetricRevenue (Finite (p * real_of_int (current_price i)))]
     @ map Info (insights i (Finite p)) @ [input_summary i], None)"
  using assms by (simp add: predict_block_def py_truediv_def)



lemma run_loaded:
  "run (Inr m) i =
     (if predict_button i then
        fst (predict_block m i) @
          (case snd (predict_block m i) of None \<Rightarrow> [] | Some e \<Rightarrow> [ErrorPredicting e])
      else [DefaultView])"
  by (simp add: run_def load_model_def main_area_def split: prod.splits option.splits)

lemma run_not_loaded: "run (Inl e) i = [ErrorLoading e, DefaultView]"
  by (simp add: run_def load_model_def main_area_def)

lemma hd_predict_block: "hd (fst (predict_block m i)) = PredictCall (input_features i)"
  by (simp add: predict_block_def split: sum.splits)



subsection \<open>The time index\<close>

text \<open>
  Claim C7. For a fixed year \<open>months_since_start\<close> is strictly increasing in the
  month (two months compare as their indexes do, so in particular from 1 to 12);
  for a fixed month one more year adds exactly 12; and there is no upper bound:
  every bound \<open>b\<close> is exceeded for some year.
\<close>

theorem months_since_start_linear:
  "(months_since_start y m1 < months_since_start y m2) = (m1 < m2) \<and>
   months_since_start (y + 1) m = months_since_start y m + 12 \<and>
   (\<exists>y'. b < months_since_start y' m)"
proof -
  have mono: "(months_since_start y m1 < months_since_start y m2) = (m1 < m2)"
    by (simp add: months_since_start_def)
  have step: "months_since_start (y + 1) m = months_since_start y m + 12"
    by (simp add: months_since_start_def)
  have "b < months_since_start (2017 + \<bar>b\<bar> + \<bar>m\<bar> + 1) m"
    by (simp add: months_since_start_def)
  then have unb: "\<exists>y'. b < months_since_start y' m" ..
  from mono step unb show ?thesis by blast
qed

subsection \<open>The cyclical encoding\<close>





lemma month_cos_values: "month_cos 12 = 1 \<and> month_cos 1 = sqrt 3 / 2"
  by (simp add: month_cos_def cos_30)


subsection \<open>The feature row\<close>

lemma example_features:
  "input_features example_inputs = [98, 1008, 50, sqrt 3 / 2, 1 / 2, 0, 0]"
  by (simp add: input_features_def example_inputs_def months_since_start_def
      price_change_def is_festive_num_def is_harvest_num_def month_sin_def
      month_cos_def sin_60 cos_60)

text \<open>
  Claim C1. For every value of the inputs the row passed to the model has exactly
  seven entries, in this order: the month index \<open>(year - 2017) * 12 + month\<close>, last
  month's units, the price difference \<open>current - last\<close>, the sine and the cosine of
  \<open>2 pi month / 12\<close>, the festive flag and the harvest flag; each flag is 0 or 1, and
  it is 1 exactly when the widget says Yes. The first thing the \<open>try\<close> block does
  with a loaded model is to call it on this row.
\<close>

theorem input_features_layout:
  "input_features i =
     [real_of_int ((current_year i - 2017) * 12 + month_num i),
      real_of_int (units_sold_lag1 i),
      real_of_int (current_price i - last_month_price i),
      sin (2 * pi * real_of_int (month_num i) / 12),
      cos (2 * pi * real_of_int (month_num i) / 12),
      real_of_int (is_festive_num i),
      real_of_int (is_harvest_num i)] \<and>
   length (input_features i) = 7 \<and>
   (is_festive_num i = 0 \<or> is_festive_num i = 1) \<and>
   (is_harvest_num i = 0 \<or> is_harvest_num i = 1) \<and>
   (is_festive_num i = 1) = (is_festive i = ''Yes'') \<and>
   (is_harvest_num i = 1) = (is_harvest i = ''Yes'') \<and>
   hd (fst (predict_block m i)) = PredictCall (input_features i)"
proof -
  have row: "input_features i =
     [real_of_int ((current_year i - 2017) * 12 + month_num i),
      real_of_int (units_sold_lag1 i),
      real_of_int (current_price i - last_month_price i),
      sin (2 * pi * real_of_int (month_num i) / 12),
      cos (2 * pi * real_of_int (month_num i) / 12),
      real_of_int (is_festive_num i),
      real_of_int (is_harvest_num i)]"
    by (simp add: input_features_def months_since_start_def price_change_def
        month_sin_def month_cos_def)
  have len: "length (input_features i) = 7"
    by (simp add: input_features_def)
  have flags: "(is_festive_num i = 0 \<or> is_festive_num i = 1) \<and>
      (is_harvest_num i = 0 \<or> is_harvest_num i = 1) \<and>
      (is_festive_num i = 1) = (is_festive i = ''Yes'') \<and>
      (is_harvest_num i = 1) = (is_harvest i = ''Yes'')"
    by (simp add: is_festive_num_def is_harvest_num_def)
  from row len flags hd_predict_block [of m i] show ?thesis
    by blast
qed

subsection \<open>The advisory list\<close>

lemma filter_price_direction_insights:
  "filter is_price_direction (insights i p) = price_insight i"
  by (simp add: insights_def price_insight_def festive_insight_def
      harvest_insight_def magnitude_insight_def)

lemma filter_magnitude_insights:
  "filter is_magnitude (insights i p) = magnitude_insight p (units_sold_lag1 i)"
  by (simp add: insights_def price_insight_def festive_insight_def
      harvest_insight_def magnitude_insight_def)

text \<open>
  Claim C3. In the advisory list of any inputs and any prediction, a
  price-increased message is present exactly when the price difference is
  positive, a price-decreased message exactly when it is negative, and the stable
  message exactly when it is zero; the list holds exactly one price-direction
  message, and that message is the stable one exactly when the current price
  equals last month's price.
\<close>

theorem price_direction_exclusive:
  "(\<exists>n. PriceIncreased n \<in> set (insights i p)) = (0 < price_change i) \<and>
   (\<exists>n. PriceDecreased n \<in> set (insights i p)) = (price_change i < 0) \<and>
   (PriceStable \<in> set (insights i p)) = (price_change i = 0) \<and>
   length (filter is_price_direction (insights i p)) = 1 \<and>
   (filter is_price_direction (insights i p) = [PriceStable]) =
     (current_price i = last_month_price i)"
  by (auto simp add: insights_def price_insight_def festive_insight_def
      harvest_insight_def magnitude_insight_def price_change_def)

text \<open>
  Claim C10. The advisory list of any inputs and any prediction has at least one
  and at most four entries; its first entry is a price-direction message, and the
  only one; and the entries come in the order of the blocks of the script (price
  direction, festive, harvest, magnitude), at most one entry per block.
\<close>

theorem insights_shape:
  "1 \<le> length (insights i p) \<and> length (insights i p) \<le> 4 \<and>
   is_price_direction (hd (insights i p)) \<and>
   filter is_price_direction (insights i p) = [hd (insights i p)] \<and>
   sorted_wrt (<) (map block_of (insights i p)) \<and>
   insights i p =
     hd (insights i p) # filter (\<lambda>s. s = FestiveSeason) (insights i p)
       @ filter (\<lambda>s. s = HarvestSeason) (insights i p)
       @ filter is_magnitude (insights i p)"
  by (simp add: insights_def price_insight_def festive_insight_def
      harvest_insight_def magnitude_insight_def)

text \<open>
  Claim C4. When last month's units are not zero, the change in percent of a
  finite prediction \<open>p\<close> is the number \<open>(p - lag) / lag * 100\<close>; a stock-up advisory is
  in the list exactly when this number is above 10 and a reduce-inventory advisory
  exactly when it is below -10, so never both, and neither at exactly 10 or -10.
  The magnitude advisories are those of \<open>magnitude_insight\<close>, which reads the
  prediction and last month's units only: changing the prices and the seasonal
  selections leaves them as they are.
\<close>

theorem magnitude_advisories:
  assumes "units_sold_lag1 i \<noteq> 0"
  shows
    "change_pct (Finite p) (units_sold_lag1 i) =
       Finite ((p - real_of_int (units_sold_lag1 i)) / real_of_int (units_sold_lag1 i) * 100) \<and>
     (\<exists>x. StockUp x \<in> set (insights i (Finite p))) =
       (10 < (p - real_of_int (units_sold_lag1 i)) / real_of_int (units_sold_lag1 i) * 100) \<and>
     (\<exists>x. ReduceInventory x \<in> set (insights i (Finite p))) =
       ((p - real_of_int (units_sold_lag1 i)) / real_of_int (units_sold_lag1 i) * 100 < - 10) \<and>
     \<not> ((\<exists>x. StockUp x \<in> set (insights i (Finite p))) \<and>
        (\<exists>x. ReduceInventory x \<in> set (insights i (Finite p)))) \<and>
     filter is_magnitude (insights i (Finite p)) =
       magnitude_insight (Finite p) (units_sold_lag1 i) \<and>
     filter is_magnitude
       (insights (i\<lparr>current_price := c, last_month_price := l,
                   is_festive := f, is_harvest := h\<rparr>) (Finite p)) =
       filter is_magnitude (insights i (Finite p))"
proof -
  have pct: "change_pct (Finite p) (units_sold_lag1 i) =
      Finite ((p - real_of_int (units_sold_lag1 i)) / real_of_int (units_sold_lag1 i) * 100)"
    using assms by (simp add: change_pct_def)
  have up: "(\<exists>x. StockUp x \<in> set (insights i (Finite p))) =
      (10 < (p - real_of_int (units_sold_lag1 i)) / real_of_int (units_sold_lag1 i) * 100)"
    by (auto simp add: pct insights_def price_insight_def festive_insight_def
        harvest_insight_def magnitude_insight_def)
  have down: "(\<exists>x. ReduceInventory x \<in> set (insights i (Finite p))) =
      ((p - real_of_int (units_sold_lag1 i)) / real_of_int (units_sold_lag1 i) * 100 < - 10)"
    by (auto simp add: pct insights_def price_insight_def festive_insight_def
        harvest_insight_def magnitude_insight_def)
  have excl: "\<not> ((\<exists>x. StockUp x \<in> set (insights i (Finite p))) \<and>
      (\<exists>x. ReduceInventory x \<in> set (insights i (Finite p))))"
    unfolding up down by simp
  have frame: "filter is_magnitude
       (insights (i\<lparr>current_price := c, last_month_price := l,
                   is_festive := f, is_harvest := h\<rparr>) (Finite p)) =
       filter is_magnitude (insights i (Finite p))"
    by (simp add: filter_magnitude_insights)
  from pct up down excl frame filter_magnitude_insights [of i "Finite p"]
  show ?thesis by blast
qed

theorem magnitude_advisories_witness:
  "units_sold_lag1 example_inputs \<noteq> 0 \<and>
   change_pct (Finite 1200) (units_sold_lag1 example_inputs) = Finite (400 / 21) \<and>
   (\<exists>x. StockUp x \<in> set (insights example_inputs (Finite 1200))) \<and>
   \<not> (\<exists>x. ReduceInventory x \<in> set (insights example_inputs (Finite 1200))) \<and>
   \<not> (\<exists>x. StockUp x \<in> set (insights example_inputs (Finite 1108.8))) \<and>
   \<not> (\<exists>x. ReduceInventory x \<in> set (insights example_inputs (Finite 1108.8)))"
proof -
  have lag: "units_sold_lag1 example_inputs = 1008"
    by (simp add: example_inputs_def)
  have nz: "units_sold_lag1 example_inputs \<noteq> 0"
    by (simp add: lag)
  from magnitude_advisories [OF nz, of 1200] magnitude_advisories [OF nz, of "1108.8"] nz
  show ?thesis
    unfolding lag by simp
qed

text \<open>
  Claim C2. With last month's units at zero the change in percent of any float64
  \<open>pr\<close> is a float64 special value (inf, -inf or nan) and not an exception. With
  a loaded model that returns the finite scalar \<open>p\<close> and a nonzero last-month
  price (the widget allows 100 to 10000) it is
  inf for a positive prediction, -inf for a negative one, nan for zero. The
  \<open>try\<close> block ends without any exception, the run shows no error box, and the
  advisories shown are the whole list: the price, festive and harvest entries,
  followed by a stock-up advisory of inf percent for a positive prediction, a
  reduce-inventory advisory of inf percent for a negative one, and nothing for
  zero.
\<close>

theorem zero_lag_no_exception:
  assumes "units_sold_lag1 i = 0" and "predict_button i"
    and "m (input_features i) = Inr (Finite p)" and "last_month_price i \<noteq> 0"
  shows
    "(change_pct pr (units_sold_lag1 i) = PosInf \<or>
      change_pct pr (units_sold_lag1 i) = NegInf \<or>
      change_pct pr (units_sold_lag1 i) = NaN) \<and>
     change_pct (Finite p) (units_sold_lag1 i) =
       (if 0 < p then PosInf else if p < 0 then NegInf else NaN) \<and>
     snd (predict_block m i) = None \<and>
     filter is_error (run (Inr m) i) = [] \<and>
     infos (run (Inr m) i) = insights i (Finite p) \<and>
     insights i (Finite p) =
       price_insight i @ festive_insight i @ harvest_insight i @
         (if 0 < p then [StockUp PosInf]
          else if p < 0 then [ReduceInventory PosInf] else [])"
proof -
  have special: "change_pct pr (units_sold_lag1 i) = PosInf \<or>
      change_pct pr (units_sold_lag1 i) = NegInf \<or>
      change_pct pr (units_sold_lag1 i) = NaN"
    using assms(1) by (cases pr) (simp_all add: change_pct_def)
  have pct: "change_pct (Finite p) (units_sold_lag1 i) =
      (if 0 < p then PosInf else if p < 0 then NegInf else NaN)"
    using assms(1) by (simp add: change_pct_def)
  have block: "snd (predict_block m i) = None"
    using assms(3,4) by (simp add: predict_block_finite)
  have no_err: "filter is_error (run (Inr m) i) = []"
    using assms(2,3,4)
    by (simp add: run_loaded predict_block_finite filter_map_Info input_summary_def)
  have shown: "infos (run (Inr m) i) = insights i (Finite p)"
    using assms(2,3,4)
    by (simp add: run_loaded predict_block_finite infos_append infos_map_Info
        input_summary_def)
  have lst: "insights i (Finite p) =
       price_insight i @ festive_insight i @ harvest_insight i @
         (if 0 < p then [StockUp PosInf]
          else if p < 0 then [ReduceInventory PosInf] else [])"
    using assms(1) by (simp add: insights_def magnitude_insight_def change_pct_def)
  from special pct block no_err shown lst show ?thesis by blast
qed

theorem zero_lag_no_exception_witness:
  "units_sold_lag1 (example_inputs\<lparr>units_sold_lag1 := 0\<rparr>) = 0 \<and>
   predict_button (example_inputs\<lparr>units_sold_lag1 := 0\<rparr>) \<and>
   last_month_price (example_inputs\<lparr>units_sold_lag1 := 0\<rparr>) \<noteq> 0 \<and>
   snd (predict_block (constant_model (Finite 950))
          (example_inputs\<lparr>units_sold_lag1 := 0\<rparr>)) = None \<and>
   infos (run (Inr (constant_model (Finite 950)))
          (example_inputs\<lparr>units_sold_lag1 := 0\<rparr>)) =
     [PriceIncreased 50, StockUp PosInf] \<and>
   infos (run (Inr (constant_model (Finite 0)))
          (example_inputs\<lparr>units_sold_lag1 := 0\<rparr>)) =
     [PriceIncreased 50]"
proof -
  have h: "units_sold_lag1 (example_inputs\<lparr>units_sold_lag1 := 0\<rparr>) = 0"
    "predict_button (example_inputs\<lparr>units_sold_lag1 := 0\<rparr>)"
    "last_month_price (example_inputs\<lparr>units_sold_lag1 := 0\<rparr>) \<noteq> 0"
    by (simp_all add: example_inputs_def)
  have m: "constant_model (Finite x) (input_features j) = Inr (Finite x)" for x j
    by (simp add: constant_model_def)
  note a = zero_lag_no_exception
    [of "example_inputs\<lparr>units_sold_lag1 := 0\<rparr>" "constant_model (Finite 950)" 950,
     OF h(1) h(2) m h(3)]
  note b = zero_lag_no_exception
    [of "example_inputs\<lparr>units_sold_lag1 := 0\<rparr>" "constant_model (Finite 0)" 0,
     OF h(1) h(2) m h(3)]
  from a b h show ?thesis
    by (simp add: price_insight_def festive_insight_def harvest_insight_def
        price_change_def example_inputs_def)
qed

subsection \<open>The metrics\<close>




subsection \<open>Failures\<close>

text \<open>
  Claim C6. When loading the model fails, a run reports the load error and shows
  the default view, also with the button pressed: the model is not called and no
  metric, advisory or summary is drawn. When the model is loaded, the button is
  pressed and the call of the model raises, the run consists of that one call
  followed by the error box carrying the exception: nothing of a result is drawn
  and the model is not called again. A run with a loaded model that returns a
  finite scalar, with a nonzero last-month price, shows no error box.
\<close>

theorem failure_paths:
  assumes "predict_button i" and "m (input_features i) = Inl e'"
    and "m2 (input_features i) = Inr (Finite p)" and "last_month_price i \<noteq> 0"
  shows
    "run (Inl e) i = [ErrorLoading e, DefaultView] \<and>
     filter is_predict_call (run (Inl e) i) = [] \<and>
     filter is_result (run (Inl e) i) = [] \<and>
     run (Inr m) i = [PredictCall (input_features i), ErrorPredicting e'] \<and>
     filter is_predict_call (run (Inr m) i) = [PredictCall (input_features i)] \<and>
     filter is_result (run (Inr m) i) = [] \<and>
     filter is_error (run (Inr m2) i) = []"
proof -
  have load: "run (Inl e) i = [ErrorLoading e, DefaultView]"
    by (rule run_not_loaded)
  have raised: "run (Inr m) i = [PredictCall (input_features i), ErrorPredicting e']"
    using assms(1,2) by (simp add: run_loaded predict_block_raises)
  have fine: "filter is_error (run (Inr m2) i) = []"
    using assms(1,3,4)
    by (simp add: run_loaded predict_block_finite filter_map_Info input_summary_def)
  from load raised fine show ?thesis by simp
qed

theorem failure_paths_witness:
  "predict_button example_inputs \<and>
   failing_model (ModelRaised ''boom'') (input_features example_inputs) =
     Inl (ModelRaised ''boom'') \<and>
   last_month_price example_inputs \<noteq> 0 \<and>
   run (Inl (LoadFailed ''no file'')) example_inputs =
     [ErrorLoading (LoadFailed ''no file''), DefaultView] \<and>
   run (Inr (failing_model (ModelRaised ''boom''))) example_inputs =
     [PredictCall [98, 1008, 50, sqrt 3 / 2, 1 / 2, 0, 0],
      ErrorPredicting (ModelRaised ''boom'')] \<and>
   filter is_error (run (Inr (constant_model (Finite 950))) example_inputs) = []"
proof -
  have b: "predict_button example_inputs"
    by (simp add: example_inputs_def)
  have f: "failing_model (ModelRaised ''boom'') (input_features example_inputs) =
      Inl (ModelRaised ''boom'')"
    by (simp add: failing_model_def)
  have c: "constant_model (Finite 950) (input_features example_inputs) = Inr (Finite 950)"
    by (simp add: constant_model_def)
  have l: "last_month_price example_inputs \<noteq> 0"
    by (simp add: example_inputs_def)
  from failure_paths
    [where i = example_inputs and m = "failing_model (ModelRaised ''boom'')"
       and e' = "ModelRaised ''boom''" and ?m2.0 = "constant_model (Finite 950)"
       and p = 950 and e = "LoadFailed ''no file''", OF b f c l]
    b f l
  show ?thesis by (simp add: example_features)
qed

subsection \<open>What the advisories depend on\<close>



end
